theory Spec2Isabelle
  imports Main
begin

section \<open>Data model of the worker\<close>

text \<open>
  The worker (\<^verbatim>\<open>src/worker.js\<close>) answers one HTTP request per invocation. Everything it
  reads from outside is an explicit argument of the model:
  \<^item> \<open>env\<close>: the global object \<^verbatim>\<open>self\<close> restricted to the environment bindings, a map from
    variable names to their (string) values; \<^verbatim>\<open>name in self\<close> is \<open>env name \<noteq> None\<close>;
  \<^item> \<open>now\<close>: the value of \<^verbatim>\<open>Date.now()\<close> in milliseconds;
  \<^item> \<open>hmac\<close>: \<^verbatim>\<open>crypto.subtle\<close> HMAC-SHA-256 followed by the lower-case hex encoding, as a
    function of the key and the message (platform code, taken as a parameter);
  \<^item> \<open>world\<close>: what the remote BunnyCDN endpoints answer to each \<^verbatim>\<open>fetch\<close>.
  Every \<^verbatim>\<open>fetch\<close> the worker issues, and every call of \<^verbatim>\<open>verifySignature\<close>, is recorded in a
  trace of events that each function returns beside its result. Console logging is not
  modelled.
\<close>

record response =
  status :: nat
  body :: string

record request =
  pathname :: string
  http_method :: string
  x_ghost_signature :: "string option"
  manualtriggertoken :: "string option"
  body_text :: string

type_synonym env = "string \<rightharpoonup> string"

text \<open>
  A \<^verbatim>\<open>fetch\<close> either rejects (a network error, with its message) or resolves to a response
  with a status and a payload.
\<close>

datatype 'b fetch_result = NetworkError string | HttpResponse nat 'b

text \<open>
  The payload of the folder listing: \<open>Malformed e\<close> is a body on which
  \<^verbatim>\<open>listResponse.json()\<close> rejects with message \<open>e\<close>; \<open>Folders fs\<close> is a JSON array of folder
  entries. Each entry is the folder's \<^verbatim>\<open>ObjectName\<close> paired with the result that the DELETE
  \<^verbatim>\<open>fetch\<close> for this folder will get.
\<close>

datatype list_payload = Malformed string | Folders "(string \<times> unit fetch_result) list"

record world =
  purge_reply :: "unit fetch_result"
  list_reply :: "list_payload fetch_result"
  completion_order :: "nat list"

text \<open>
  \<open>completion_order\<close> lists the indices of the delete promises in the order in which they
  settle; indices it does not mention settle afterwards, in index order.
\<close>

datatype event = Fetch string string | VerifyCalled

text \<open>A promise is settled: fulfilled with a value or rejected with an error message.\<close>

datatype 'a settled = Fulfilled 'a | Rejected string

text \<open>
  \<^verbatim>\<open>verifySignature\<close> returns a boolean on its regular paths and whatever \<^verbatim>\<open>handleError\<close>
  returns (a \<^verbatim>\<open>Response\<close> object) from its \<^verbatim>\<open>catch\<close>.
\<close>

datatype verify_result = JBool bool | JResponse response

text \<open>
  \<^verbatim>\<open>cleanupPermaCacheFolders\<close> returns the tally string, or the \<^verbatim>\<open>Response\<close> of
  \<^verbatim>\<open>handleError\<close> from its \<^verbatim>\<open>catch\<close>.
\<close>

datatype cleanup_result = CleanupString string | CleanupResponse response

text \<open>
  What \<^verbatim>\<open>handleRequest\<close> hands to \<^verbatim>\<open>event.respondWith\<close>: a promise fulfilled with a response,
  or a rejected one (an error that no \<^verbatim>\<open>catch\<close> of the worker has handled).
\<close>

datatype outcome = Responded response | Unhandled string

section \<open>Constants\<close>

definition HTTP_OK :: nat where "HTTP_OK = 200"
definition HTTP_FORBIDDEN :: nat where "HTTP_FORBIDDEN = 403"
definition HTTP_NOT_FOUND :: nat where "HTTP_NOT_FOUND = 404"
definition HTTP_SERVER_ERROR :: nat where "HTTP_SERVER_ERROR = 500"

definition REQUIRED_ENV_VARS :: "string list" where
  "REQUIRED_ENV_VARS =
     [''GHOST_WEBHOOK_SECRET'',
      ''BUNNY_PULLZONE_ID'',
      ''BUNNY_API_KEY'',
      ''BUNNY_STORAGE_ZONE_HOSTNAME'',
      ''BUNNY_STORAGE_ZONE_NAME'',
      ''BUNNY_STORAGE_ZONE_PASSWORD'',
      ''MANUAL_TRIGGER_TOKEN'']"

section \<open>JavaScript primitives used by the worker\<close>

text \<open>\<^verbatim>\<open>response.ok\<close>: the status is in the range 200 to 299.\<close>

definition ok :: "nat \<Rightarrow> bool" where
  "ok st = (200 \<le> st \<and> st \<le> 299)"

text \<open>The decimal rendering of a non-negative integer inside a template literal.\<close>

fun string_of_nat :: "nat \<Rightarrow> string" where
  "string_of_nat n =
     (if n < 10 then [''0123456789'' ! n]
      else string_of_nat (n div 10) @ [''0123456789'' ! (n mod 10)])"

declare string_of_nat.simps [simp del]

text \<open>A string or \<^verbatim>\<open>undefined\<close> inside a template literal.\<close>

definition template :: "string option \<Rightarrow> string" where
  "template v = (case v of None \<Rightarrow> ''undefined'' | Some s \<Rightarrow> s)"

text \<open>
  \<^verbatim>\<open>a !== b\<close> where \<open>a\<close> is a header value (\<open>None\<close> is \<^verbatim>\<open>null\<close>) and \<open>b\<close> a binding of
  \<^verbatim>\<open>self\<close> (\<open>None\<close> is \<^verbatim>\<open>undefined\<close>): \<^verbatim>\<open>null\<close> and \<^verbatim>\<open>undefined\<close> are not strictly equal.
\<close>

definition strict_neq :: "string option \<Rightarrow> string option \<Rightarrow> bool" where
  "strict_neq a b = (case (a, b) of (Some x, Some y) \<Rightarrow> x \<noteq> y | _ \<Rightarrow> True)"

text \<open>
  \<^verbatim>\<open>s.split(sep)\<close> for a non-empty separator: \<open>split_from sep cur s\<close> scans \<open>s\<close> with the
  current piece \<open>cur\<close>.
\<close>

function split_from :: "string \<Rightarrow> string \<Rightarrow> string \<Rightarrow> string list" where
  "split_from sep cur [] = [cur]"
| "split_from sep cur (c # cs) =
     (if sep \<noteq> [] \<and> take (length sep) (c # cs) = sep
      then cur # split_from sep [] (drop (length sep) (c # cs))
      else split_from sep (cur @ [c]) cs)"
  by pat_completeness auto
termination
  by (relation "measure (\<lambda>(sep, cur, s). length s)") auto

definition js_split :: "string \<Rightarrow> string \<Rightarrow> string list" where
  "js_split s sep = split_from sep [] s"

text \<open>
  Array destructuring: \<^verbatim>\<open>[a, b] = xs\<close> reads \<^verbatim>\<open>xs[0]\<close> and \<^verbatim>\<open>xs[1]\<close>; an index past the end
  reads \<^verbatim>\<open>undefined\<close> (\<open>None\<close>).
\<close>

definition element :: "nat \<Rightarrow> string list \<Rightarrow> string option" where
  "element i xs = (if i < length xs then Some (xs ! i) else None)"

text \<open>
  \<^verbatim>\<open>parseInt(v)\<close> without a radix: leading white space is skipped, then an optional sign,
  then an optional \<^verbatim>\<open>0x\<close> prefix that selects radix 16, then the longest run of digits;
  no digit gives \<^verbatim>\<open>NaN\<close> (\<open>None\<close>). The result is kept as an exact integer. Only the ASCII
  white space characters are recognised.
\<close>

definition is_js_space :: "char \<Rightarrow> bool" where
  "is_js_space c = (c \<in> set [CHR 0x09, CHR 0x0A, CHR 0x0B, CHR 0x0C, CHR 0x0D, CHR 0x20])"

definition digit_value :: "char \<Rightarrow> nat option" where
  "digit_value c =
     (let n = (of_char c :: nat) in
      if 48 \<le> n \<and> n \<le> 57 then Some (n - 48)
      else if 97 \<le> n \<and> n \<le> 122 then Some (n - 87)
      else if 65 \<le> n \<and> n \<le> 90 then Some (n - 55)
      else None)"

fun take_digits :: "nat \<Rightarrow> string \<Rightarrow> nat list" where
  "take_digits R [] = []"
| "take_digits R (c # cs) =
     (case digit_value c of
        None \<Rightarrow> []
      | Some d \<Rightarrow> if d < R then d # take_digits R cs else [])"

definition number_of_digits :: "nat \<Rightarrow> nat list \<Rightarrow> nat" where
  "number_of_digits R ds = foldl (\<lambda>a d. a * R + d) 0 ds"

definition parseInt :: "string option \<Rightarrow> int option" where
  "parseInt v =
     (let s = dropWhile is_js_space (template v);
          neg = (take 1 s = ''-'');
          s1 = (if take 1 s = ''+'' \<or> take 1 s = ''-'' then drop 1 s else s);
          hex = (take 2 s1 = ''0x'' \<or> take 2 s1 = ''0X'');
          R = (if hex then 16 else 10);
          Z = take_digits R (if hex then drop 2 s1 else s1)
      in if Z = [] then None
         else Some ((if neg then - 1 else 1) * int (number_of_digits R Z)))"

text \<open>
  \<^verbatim>\<open>Promise.all(ps)\<close>: rejected with the reason of the promise that rejects first in
  completion order, otherwise fulfilled with the values in index order.
\<close>

definition is_rejected :: "'a settled \<Rightarrow> bool" where
  "is_rejected p = (case p of Rejected _ \<Rightarrow> True | Fulfilled _ \<Rightarrow> False)"

definition fulfilled_values :: "'a settled list \<Rightarrow> 'a list" where
  "fulfilled_values ps = concat (map (\<lambda>p. case p of Fulfilled v \<Rightarrow> [v] | Rejected _ \<Rightarrow> []) ps)"

definition Promise_all :: "nat list \<Rightarrow> 'a settled list \<Rightarrow> string + 'a list" where
  "Promise_all order ps =
     (case List.find is_rejected
             (map (\<lambda>i. ps ! i) (filter (\<lambda>i. i < length ps) order) @ ps) of
        Some (Rejected e) \<Rightarrow> Inl e
      | _ \<Rightarrow> Inr (fulfilled_values ps))"

section \<open>The worker\<close>

text \<open>\<^verbatim>\<open>handleError(error, customMessage)\<close>: a 500 response carrying the error's message.\<close>

definition handleError :: "string \<Rightarrow> response" where
  "handleError message =
     \<lparr>status = HTTP_SERVER_ERROR, body = ''An error occurred: '' @ message\<rparr>"

text \<open>\<^verbatim>\<open>validateEnvironmentVariables\<close>: throws at the first required name that is not in \<^verbatim>\<open>self\<close>.\<close>

definition validateEnvironmentVariables :: "env \<Rightarrow> string + unit" where
  "validateEnvironmentVariables env =
     (case List.find (\<lambda>varName. env varName = None) REQUIRED_ENV_VARS of
        Some varName \<Rightarrow> Inl (''Missing required environment variable: '' @ varName)
      | None \<Rightarrow> Inr ())"

text \<open>
  The message of the \<^verbatim>\<open>TypeError\<close> raised by \<^verbatim>\<open>timeStamp.split("=")\<close> when \<^verbatim>\<open>timeStamp\<close> is
  \<^verbatim>\<open>undefined\<close> (the wording is the engine's).
\<close>

definition undefined_split_message :: string where
  "undefined_split_message = ''Cannot read properties of undefined (reading split)''"

text \<open>
  \<^verbatim>\<open>verifySignature\<close> (worker.js, lines 92 to 128). Calling \<^verbatim>\<open>split\<close> on \<^verbatim>\<open>undefined\<close> throws
  inside the \<^verbatim>\<open>try\<close>, and the \<^verbatim>\<open>catch\<close> returns the value of \<^verbatim>\<open>handleError\<close>. The request body
  has not been read before, and the key is not empty where it is imported, so
  \<^verbatim>\<open>request.text()\<close> and the \<^verbatim>\<open>crypto.subtle\<close> calls are taken not to throw. When the timestamp
  is \<^verbatim>\<open>NaN\<close> the comparison with the five-minute window is false.
\<close>

definition verifySignature ::
  "(string \<Rightarrow> string \<Rightarrow> string) \<Rightarrow> env \<Rightarrow> int \<Rightarrow> request \<Rightarrow> verify_result" where
  "verifySignature hmac env now req =
     (case x_ghost_signature req of
        None \<Rightarrow> JBool False
      | Some signatureHeader \<Rightarrow>
          if signatureHeader = [] then JBool False
          else
            let parts = js_split signatureHeader '', '' in
            (case element 0 parts of
               None \<Rightarrow> JResponse (handleError undefined_split_message)
             | Some sigHash \<Rightarrow>
                 let hash = element 1 (js_split sigHash ''='') in
                 (case element 1 parts of
                    None \<Rightarrow> JResponse (handleError undefined_split_message)
                  | Some timeStamp \<Rightarrow>
                      let ts = element 1 (js_split timeStamp ''='') in
                      if (case parseInt ts of
                            None \<Rightarrow> False
                          | Some t \<Rightarrow> \<bar>now - t\<bar> > 5 * 60 * 1000)
                      then JBool False
                      else
                        (case env ''GHOST_WEBHOOK_SECRET'' of
                           None \<Rightarrow> JBool False
                         | Some secret \<Rightarrow>
                             if secret = [] then JBool False
                             else
                               let message = body_text req @ template ts;
                                   computedHash = hmac secret message
                               in JBool (Some computedHash = hash)))))"

text \<open>The truth value of a \<^verbatim>\<open>verifySignature\<close> result under \<^verbatim>\<open>!isValid\<close>: an object is truthy.\<close>

definition truthy :: "verify_result \<Rightarrow> bool" where
  "truthy v = (case v of JBool b \<Rightarrow> b | JResponse _ \<Rightarrow> True)"

definition purge_url :: "env \<Rightarrow> string" where
  "purge_url env =
     ''https://api.bunny.net/pullzone/'' @ template (env ''BUNNY_PULLZONE_ID'') @ ''/purgeCache''"

definition perma_cache_url :: "env \<Rightarrow> string" where
  "perma_cache_url env =
     ''https://'' @ template (env ''BUNNY_STORAGE_ZONE_HOSTNAME'') @ ''/''
       @ template (env ''BUNNY_STORAGE_ZONE_NAME'') @ ''/__bcdn_perma_cache__/''"

definition delete_event :: "env \<Rightarrow> string \<times> unit fetch_result \<Rightarrow> event" where
  "delete_event env folder = Fetch ''DELETE'' (perma_cache_url env @ fst folder @ ''/'')"

text \<open>\<^verbatim>\<open>purgeBunnyCDNCache\<close>: one POST; a response that is not ok is thrown as an error.\<close>

definition purgeBunnyCDNCache :: "env \<Rightarrow> world \<Rightarrow> (string + unit) \<times> event list" where
  "purgeBunnyCDNCache env w =
     (case purge_reply w of
        NetworkError e \<Rightarrow> Inl e
      | HttpResponse st _ \<Rightarrow>
          if \<not> ok st then Inl (''Failed to purge cache. Status: '' @ string_of_nat st)
          else Inr (),
      [Fetch ''POST'' (purge_url env)])"

text \<open>\<^verbatim>\<open>listPermaCacheFolders\<close>: one GET; returns the parsed JSON body.\<close>

definition listPermaCacheFolders ::
  "env \<Rightarrow> world \<Rightarrow> (string + (string \<times> unit fetch_result) list) \<times> event list" where
  "listPermaCacheFolders env w =
     (case list_reply w of
        NetworkError e \<Rightarrow> Inl e
      | HttpResponse st payload \<Rightarrow>
          if \<not> ok st
          then Inl (''Failed to list Perma-Cache folders. Status: '' @ string_of_nat st)
          else (case payload of Malformed e \<Rightarrow> Inl e | Folders fs \<Rightarrow> Inr fs),
      [Fetch ''GET'' (perma_cache_url env)])"

text \<open>
  \<^verbatim>\<open>deleteFolder\<close>: the promise it returns, once settled. It has no \<^verbatim>\<open>catch\<close>: a \<^verbatim>\<open>fetch\<close> that
  rejects rejects the promise.
\<close>

definition deleteFolder :: "string \<times> unit fetch_result \<Rightarrow> bool settled" where
  "deleteFolder folder =
     (case snd folder of
        NetworkError e \<Rightarrow> Rejected e
      | HttpResponse st _ \<Rightarrow> if ok st then Fulfilled True else Fulfilled False)"

definition tally_string :: "nat \<Rightarrow> nat \<Rightarrow> nat \<Rightarrow> string" where
  "tally_string totalFolders deletedCount failedCount =
     ''Cleanup completed. Total folders: '' @ string_of_nat totalFolders
       @ '', Deleted: '' @ string_of_nat deletedCount
       @ '', Failed: '' @ string_of_nat failedCount"

text \<open>
  \<^verbatim>\<open>cleanupPermaCacheFolders\<close> (worker.js, lines 156 to 173). \<^verbatim>\<open>folders.map(deleteFolder)\<close>
  runs every \<^verbatim>\<open>deleteFolder\<close> up to its \<^verbatim>\<open>fetch\<close>, so all DELETE requests are issued, in list
  order, before \<^verbatim>\<open>Promise.all\<close> is awaited.
\<close>

definition cleanupPermaCacheFolders :: "env \<Rightarrow> world \<Rightarrow> cleanup_result \<times> event list" where
  "cleanupPermaCacheFolders env w =
     (case listPermaCacheFolders env w of
        (Inl e, tr) \<Rightarrow> (CleanupResponse (handleError e), tr)
      | (Inr folders, tr) \<Rightarrow>
          let deletePromises = map deleteFolder folders;
              tr' = tr @ map (delete_event env) folders
          in (case Promise_all (completion_order w) deletePromises of
                Inl e \<Rightarrow> (CleanupResponse (handleError e), tr')
              | Inr results \<Rightarrow>
                  let deletedCount = length (filter (\<lambda>b. b) results);
                      failedCount = length results - deletedCount
                  in (CleanupString (tally_string (length folders) deletedCount failedCount),
                      tr')))"

text \<open>A cleanup result inside a template literal: an object prints as its class tag.\<close>

definition cleanup_to_string :: "cleanup_result \<Rightarrow> string" where
  "cleanup_to_string c =
     (case c of CleanupString s \<Rightarrow> s | CleanupResponse _ \<Rightarrow> ''[object Response]'')"

text \<open>
  \<^verbatim>\<open>handlePurgeFullCache\<close> (worker.js, lines 64 to 90): \<open>Inl e\<close> is the rejection of its promise
  with an error of message \<open>e\<close>. \<open>purge_and_cleanup\<close> is its tail (lines 85 to 89), which both
  branches of the authorization reach.
\<close>

definition purge_and_cleanup :: "env \<Rightarrow> world \<Rightarrow> (string + response) \<times> event list" where
  "purge_and_cleanup env w =
     (case purgeBunnyCDNCache env w of
        (Inl e, tr) \<Rightarrow> (Inl e, tr)
      | (Inr _, tr) \<Rightarrow>
          (case cleanupPermaCacheFolders env w of
             (cleanupResult, tr') \<Rightarrow>
               (Inr \<lparr>status = HTTP_OK,
                     body = ''Full cache purge initiated successfully. Cleanup result: ''
                            @ cleanup_to_string cleanupResult\<rparr>,
                tr @ tr')))"

definition handlePurgeFullCache ::
  "(string \<Rightarrow> string \<Rightarrow> string) \<Rightarrow> env \<Rightarrow> int \<Rightarrow> world \<Rightarrow> request
     \<Rightarrow> (string + response) \<times> event list" where
  "handlePurgeFullCache hmac env now w req =
     (if strict_neq (manualtriggertoken req) (env ''MANUAL_TRIGGER_TOKEN'')
      then
        let isValid = verifySignature hmac env now req in
        if \<not> truthy isValid
        then (Inr \<lparr>status = HTTP_FORBIDDEN, body = ''Invalid signature''\<rparr>, [VerifyCalled])
        else (case purge_and_cleanup env w of (r, tr) \<Rightarrow> (r, VerifyCalled # tr))
      else purge_and_cleanup env w)"

text \<open>
  \<^verbatim>\<open>handleRequest\<close> (worker.js, lines 32 to 50). The \<^verbatim>\<open>try\<close> block returns the promise of
  \<^verbatim>\<open>handlePurgeFullCache\<close> without awaiting it, so a rejection of that promise is not seen
  by the \<^verbatim>\<open>catch\<close>: it becomes the rejection of the promise of \<^verbatim>\<open>handleRequest\<close>.
\<close>

definition handleRequest ::
  "(string \<Rightarrow> string \<Rightarrow> string) \<Rightarrow> env \<Rightarrow> int \<Rightarrow> world \<Rightarrow> request
     \<Rightarrow> outcome \<times> event list" where
  "handleRequest hmac env now w req =
     (case validateEnvironmentVariables env of
        Inl e \<Rightarrow> (Responded (handleError e), [])
      | Inr _ \<Rightarrow>
          if pathname req = ''/purge-full-cache''
          then (case handlePurgeFullCache hmac env now w req of
                  (Inl e, tr) \<Rightarrow> (Unhandled e, tr)
                | (Inr r, tr) \<Rightarrow> (Responded r, tr))
          else (Responded \<lparr>status = HTTP_NOT_FOUND, body = ''Not Found''\<rparr>, []))"

section \<open>The legacy worker\<close>

text \<open>
  The earlier variant of the worker is \<^verbatim>\<open>src/unnamed/part_002\<close>. Its \<^verbatim>\<open>verifySignature\<close> (lines
  104 to 153) has the same body as the current one, but its \<^verbatim>\<open>catch\<close> returns \<^verbatim>\<open>false\<close>.
\<close>

definition legacy_verifySignature ::
  "(string \<Rightarrow> string \<Rightarrow> string) \<Rightarrow> env \<Rightarrow> int \<Rightarrow> request \<Rightarrow> bool" where
  "legacy_verifySignature hmac env now req =
     (case x_ghost_signature req of
        None \<Rightarrow> False
      | Some signatureHeader \<Rightarrow>
          if signatureHeader = [] then False
          else
            let parts = js_split signatureHeader '', '' in
            (case element 0 parts of
               None \<Rightarrow> False
             | Some sigHash \<Rightarrow>
                 let hash = element 1 (js_split sigHash ''='') in
                 (case element 1 parts of
                    None \<Rightarrow> False
                  | Some timeStamp \<Rightarrow>
                      let ts = element 1 (js_split timeStamp ''='');
                          currentTime = now
                      in
                      if (case parseInt ts of
                            None \<Rightarrow> False
                          | Some t \<Rightarrow> \<bar>currentTime - t\<bar> > 5 * 60 * 1000)
                      then False
                      else
                        (case env ''GHOST_WEBHOOK_SECRET'' of
                           None \<Rightarrow> False
                         | Some secret \<Rightarrow>
                             if secret = [] then False
                             else
                               let message = body_text req @ template ts;
                                   computedHash = hmac secret message
                               in Some computedHash = hash))))"

text \<open>
  The earlier variant of \<^verbatim>\<open>cleanupPermaCacheFolders\<close> (lines 155 to 215) deletes the folders
  one after the other and counts as it goes; its \<^verbatim>\<open>catch\<close> returns a string.
\<close>

fun legacy_delete_loop ::
  "env \<Rightarrow> (string \<times> unit fetch_result) list \<Rightarrow> nat \<Rightarrow> nat
     \<Rightarrow> (string + nat \<times> nat) \<times> event list" where
  "legacy_delete_loop env [] deletedCount failedCount = (Inr (deletedCount, failedCount), [])"
| "legacy_delete_loop env (folder # rest) deletedCount failedCount =
     (case snd folder of
        NetworkError e \<Rightarrow> (Inl e, [delete_event env folder])
      | HttpResponse st _ \<Rightarrow>
          (case (if ok st then legacy_delete_loop env rest (deletedCount + 1) failedCount
                 else legacy_delete_loop env rest deletedCount (failedCount + 1)) of
             (r, tr) \<Rightarrow> (r, delete_event env folder # tr)))"

definition legacy_cleanupPermaCacheFolders :: "env \<Rightarrow> world \<Rightarrow> string \<times> event list" where
  "legacy_cleanupPermaCacheFolders env w =
     (case listPermaCacheFolders env w of
        (Inl e, tr) \<Rightarrow> (''Error during cleanup: '' @ e, tr)
      | (Inr folders, tr) \<Rightarrow>
          (case legacy_delete_loop env folders 0 0 of
             (Inl e, tr') \<Rightarrow> (''Error during cleanup: '' @ e, tr @ tr')
           | (Inr (deletedCount, failedCount), tr') \<Rightarrow>
               (tally_string (length folders) deletedCount failedCount, tr @ tr')))"

text \<open>
  The earlier variant of \<^verbatim>\<open>handleRequest\<close> (lines 24 to 102) checks six required variables,
  has no manual-trigger token, and awaits the signature check, the purge and the cleanup
  inside its own \<^verbatim>\<open>try\<close>: every error is answered by its \<^verbatim>\<open>catch\<close> with status 500.
\<close>

definition legacy_requiredEnvVars :: "string list" where
  "legacy_requiredEnvVars =
     [''GHOST_WEBHOOK_SECRET'',
      ''BUNNY_PULLZONE_ID'',
      ''BUNNY_API_KEY'',
      ''BUNNY_STORAGE_ZONE_HOSTNAME'',
      ''BUNNY_STORAGE_ZONE_NAME'',
      ''BUNNY_STORAGE_ZONE_PASSWORD'']"

definition legacy_handleRequest ::
  "(string \<Rightarrow> string \<Rightarrow> string) \<Rightarrow> env \<Rightarrow> int \<Rightarrow> world \<Rightarrow> request
     \<Rightarrow> response \<times> event list" where
  "legacy_handleRequest hmac env now w req =
     (case List.find (\<lambda>varName. env varName = None) legacy_requiredEnvVars of
        Some varName \<Rightarrow>
          (\<lparr>status = 500,
            body = ''An error occurred: Missing required environment variable: '' @ varName\<rparr>,
           [])
      | None \<Rightarrow>
          if pathname req = ''/purge-full-cache''
          then
            let isValid = legacy_verifySignature hmac env now req in
            if \<not> isValid
            then (\<lparr>status = 403, body = ''Invalid signature''\<rparr>, [VerifyCalled])
            else
              (case purge_reply w of
                 NetworkError e \<Rightarrow>
                   (\<lparr>status = 500, body = ''An error occurred: '' @ e\<rparr>,
                    [VerifyCalled, Fetch ''POST'' (purge_url env)])
               | HttpResponse st _ \<Rightarrow>
                   if ok st
                   then
                     (case legacy_cleanupPermaCacheFolders env w of
                        (cleanupResult, tr) \<Rightarrow>
                          (\<lparr>status = 200,
                            body = ''Full cache purge initiated successfully. Cleanup result: ''
                                   @ cleanupResult\<rparr>,
                           VerifyCalled # Fetch ''POST'' (purge_url env) # tr))
                   else
                     (\<lparr>status = 500,
                       body = ''An error occurred: Failed to purge cache. Status: ''
                              @ string_of_nat st\<rparr>,
                      [VerifyCalled, Fetch ''POST'' (purge_url env)]))
          else (\<lparr>status = 404, body = ''Not Found''\<rparr>, []))"

section \<open>Vocabulary of the properties\<close>

text \<open>
  The DELETE call for a folder raises when its \<^verbatim>\<open>fetch\<close> rejects; it succeeds when it is
  answered with an ok status. A deletion that does not succeed has failed, whether it was
  answered with another status or raised.
\<close>

definition delete_raises :: "string \<times> unit fetch_result \<Rightarrow> bool" where
  "delete_raises folder = (case snd folder of NetworkError _ \<Rightarrow> True | HttpResponse _ _ \<Rightarrow> False)"

definition delete_succeeds :: "string \<times> unit fetch_result \<Rightarrow> bool" where
  "delete_succeeds folder =
     (case snd folder of NetworkError _ \<Rightarrow> False | HttpResponse st _ \<Rightarrow> ok st)"

text \<open>A string of decimal digits.\<close>

definition decimal :: "string \<Rightarrow> bool" where
  "decimal s = (\<forall>c\<in>set s. \<exists>d<10. digit_value c = Some d)"

section \<open>Concrete scenarios\<close>

text \<open>
  A complete configuration, a request for the purge path without any header, and a CDN
  that purges, lists three folders and deletes two of them. \<open>example_hmac\<close> stands in for
  the platform's HMAC in closed examples.
\<close>

definition example_env :: env where
  "example_env =
     map_of [(''GHOST_WEBHOOK_SECRET'', ''s3cret''),
             (''BUNNY_PULLZONE_ID'', ''42''),
             (''BUNNY_API_KEY'', ''key''),
             (''BUNNY_STORAGE_ZONE_HOSTNAME'', ''ny.storage.bunnycdn.com''),
             (''BUNNY_STORAGE_ZONE_NAME'', ''zone''),
             (''BUNNY_STORAGE_ZONE_PASSWORD'', ''pw''),
             (''MANUAL_TRIGGER_TOKEN'', ''tok'')]"

definition example_hmac :: "string \<Rightarrow> string \<Rightarrow> string" where
  "example_hmac key message = string_of_nat (length key) @ ''f'' @ string_of_nat (length message)"

definition example_request :: request where
  "example_request =
     \<lparr>pathname = ''/purge-full-cache'', http_method = ''POST'', x_ghost_signature = None,
      manualtriggertoken = None, body_text = ''{}''\<rparr>"

definition example_world :: world where
  "example_world =
     \<lparr>purge_reply = HttpResponse 200 (),
      list_reply = HttpResponse 200
        (Folders [(''a'', HttpResponse 200 ()), (''b'', HttpResponse 404 ()),
                  (''c'', HttpResponse 204 ())]),
      completion_order = [2, 0, 1]\<rparr>"

section \<open>Auxiliary facts\<close>

lemma find_is_rejected_None:
  "\<forall>p\<in>set ps. \<not> is_rejected p \<Longrightarrow> List.find is_rejected ps = None"
  by (induction ps) auto

lemma Promise_all_fulfilled:
  assumes "\<forall>p\<in>set ps. \<not> is_rejected p"
  shows "Promise_all order ps = Inr (fulfilled_values ps)"
proof -
  have "\<forall>p\<in>set (map (\<lambda>i. ps ! i) (filter (\<lambda>i. i < length ps) order) @ ps). \<not> is_rejected p"
    using assms by auto
  then have "List.find is_rejected (map (\<lambda>i. ps ! i) (filter (\<lambda>i. i < length ps) order) @ ps) = None"
    by (rule find_is_rejected_None)
  then show ?thesis by (simp add: Promise_all_def)
qed

lemma find_is_rejected_Some:
  "p \<in> set ps \<Longrightarrow> is_rejected p \<Longrightarrow> \<exists>e. List.find is_rejected ps = Some (Rejected e) \<and> Rejected e \<in> set ps"
proof (induction ps)
  case Nil
  then show ?case by simp
next
  case (Cons q qs)
  show ?case
  proof (cases "is_rejected q")
    case True
    then obtain e where "q = Rejected e" by (cases q) (auto simp: is_rejected_def)
    with True show ?thesis by auto
  next
    case False
    with Cons show ?thesis by auto
  qed
qed

lemma Promise_all_rejected:
  assumes "p \<in> set ps" "is_rejected p"
  shows "\<exists>e. Promise_all order ps = Inl e \<and> Rejected e \<in> set ps"
proof -
  let ?qs = "map (\<lambda>i. ps ! i) (filter (\<lambda>i. i < length ps) order) @ ps"
  have "p \<in> set ?qs" using assms by simp
  from find_is_rejected_Some [OF this assms(2)]
  obtain e where e: "List.find is_rejected ?qs = Some (Rejected e)" "Rejected e \<in> set ?qs"
    by blast
  have "set ?qs \<subseteq> set ps" by auto
  with e show ?thesis by (auto simp: Promise_all_def)
qed

lemma fulfilled_values_deleteFolder:
  "\<forall>f\<in>set folders. \<not> delete_raises f \<Longrightarrow>
     fulfilled_values (map deleteFolder folders) = map delete_succeeds folders"
  by (induction folders)
     (auto simp: fulfilled_values_def deleteFolder_def delete_raises_def delete_succeeds_def
           split: fetch_result.splits)

lemma deleteFolder_not_rejected:
  "\<not> delete_raises f \<Longrightarrow> \<not> is_rejected (deleteFolder f)"
  by (auto simp: deleteFolder_def delete_raises_def is_rejected_def split: fetch_result.splits)

lemma deleteFolder_rejected:
  "deleteFolder f = Rejected e \<longleftrightarrow> snd f = NetworkError e"
  by (auto simp: deleteFolder_def split: fetch_result.splits)

lemma count_true_map:
  "length (filter (\<lambda>b. b) (map P xs)) = length (filter P xs)"
  by (induction xs) auto

lemma count_complement:
  "length xs - length (filter P xs) = length (filter (\<lambda>x. \<not> P x) xs)"
proof -
  have "length xs = length (filter P xs) + length (filter (\<lambda>x. \<not> P x) xs)"
    by (rule sum_length_filter_compl [symmetric])
  then show ?thesis by simp
qed

lemma listPermaCacheFolders_ok:
  "list_reply w = HttpResponse st (Folders folders) \<Longrightarrow> ok st \<Longrightarrow>
     listPermaCacheFolders env w = (Inr folders, [Fetch ''GET'' (perma_cache_url env)])"
  by (simp add: listPermaCacheFolders_def)

lemma cleanup_no_raise:
  assumes "list_reply w = HttpResponse st (Folders folders)" "ok st"
      and "\<forall>f\<in>set folders. \<not> delete_raises f"
  shows "cleanupPermaCacheFolders env w =
           (CleanupString (tally_string (length folders)
              (length (filter delete_succeeds folders))
              (length (filter (\<lambda>f. \<not> delete_succeeds f) folders))),
            Fetch ''GET'' (perma_cache_url env) # map (delete_event env) folders)"
proof -
  have "\<forall>p\<in>set (map deleteFolder folders). \<not> is_rejected p"
    using assms(3) by (auto simp: deleteFolder_not_rejected)
  then have "Promise_all (completion_order w) (map deleteFolder folders)
               = Inr (map delete_succeeds folders)"
    using assms(3) by (simp add: Promise_all_fulfilled fulfilled_values_deleteFolder)
  then show ?thesis
    using assms(1,2)
    by (simp add: cleanupPermaCacheFolders_def listPermaCacheFolders_ok count_true_map
                  count_complement comp_def)
qed

lemma cleanup_raise:
  assumes "list_reply w = HttpResponse st (Folders folders)" "ok st"
      and "f \<in> set folders" "delete_raises f"
  shows "\<exists>name e. (name, NetworkError e) \<in> set folders \<and>
           cleanupPermaCacheFolders env w =
             (CleanupResponse (handleError e),
              Fetch ''GET'' (perma_cache_url env) # map (delete_event env) folders)"
proof -
  have "deleteFolder f \<in> set (map deleteFolder folders)" using assms(3) by simp
  moreover have "is_rejected (deleteFolder f)"
    using assms(4)
    by (auto simp: deleteFolder_def delete_raises_def is_rejected_def split: fetch_result.splits)
  ultimately obtain e where e: "Promise_all (completion_order w) (map deleteFolder folders) = Inl e"
      "Rejected e \<in> set (map deleteFolder folders)"
    using Promise_all_rejected by blast
  from e(2) obtain g where g: "g \<in> set folders" "deleteFolder g = Rejected e" by auto
  then have "snd g = NetworkError e" by (simp add: deleteFolder_rejected)
  with g(1) have "(fst g, NetworkError e) \<in> set folders"
    by (metis prod.collapse)
  moreover have "cleanupPermaCacheFolders env w =
             (CleanupResponse (handleError e),
              Fetch ''GET'' (perma_cache_url env) # map (delete_event env) folders)"
    using assms(1,2) e(1)
    by (simp add: cleanupPermaCacheFolders_def listPermaCacheFolders_ok)
  ultimately show ?thesis by blast
qed

lemma legacy_delete_loop_no_raise:
  "\<forall>f\<in>set folders. \<not> delete_raises f \<Longrightarrow>
     legacy_delete_loop env folders d k =
       (Inr (d + length (filter delete_succeeds folders),
             k + length (filter (\<lambda>f. \<not> delete_succeeds f) folders)),
        map (delete_event env) folders)"
proof (induction folders arbitrary: d k)
  case Nil
  then show ?case by simp
next
  case (Cons f fs)
  from Cons.prems obtain st u where st: "snd f = HttpResponse st u"
    by (cases "snd f") (auto simp: delete_raises_def)
  have rest: "\<forall>g\<in>set fs. \<not> delete_raises g" using Cons.prems by simp
  show ?case
    using st Cons.IH [OF rest] by (simp add: delete_succeeds_def)
qed

lemma only_fetches_purge_and_cleanup:
  "VerifyCalled \<notin> set (snd (purge_and_cleanup env w))"
  by (auto simp: purge_and_cleanup_def purgeBunnyCDNCache_def cleanupPermaCacheFolders_def
                 listPermaCacheFolders_def delete_event_def Let_def
           split: fetch_result.splits sum.splits list_payload.splits prod.splits if_splits)

lemma purge_and_cleanup_starts_with_purge:
  "\<exists>tr. snd (purge_and_cleanup env w) = Fetch ''POST'' (purge_url env) # tr"
  by (auto simp: purge_and_cleanup_def purgeBunnyCDNCache_def
           split: fetch_result.splits sum.splits prod.splits)

lemma verifySignature_ignores_method:
  "verifySignature hmac env now (req\<lparr>http_method := m\<rparr>) = verifySignature hmac env now req"
  by (simp add: verifySignature_def Let_def split: option.splits)

lemma handlePurgeFullCache_ignores_method:
  "handlePurgeFullCache hmac env now w (req\<lparr>http_method := m\<rparr>)
     = handlePurgeFullCache hmac env now w req"
  by (simp add: handlePurgeFullCache_def verifySignature_ignores_method)

lemma validate_missing:
  assumes "v \<in> set REQUIRED_ENV_VARS" "env v = None"
  shows "\<exists>m\<in>set REQUIRED_ENV_VARS. env m = None \<and>
           validateEnvironmentVariables env
             = Inl (''Missing required environment variable: '' @ m)"
proof (cases "List.find (\<lambda>varName. env varName = None) REQUIRED_ENV_VARS")
  case None
  with assms show ?thesis by (auto simp: find_None_iff)
next
  case (Some m)
  then have "m \<in> set REQUIRED_ENV_VARS \<and> env m = None"
    by (auto simp: find_Some_iff)
  with Some show ?thesis by (auto simp: validateEnvironmentVariables_def)
qed

lemma example_env_complete: "validateEnvironmentVariables example_env = Inr ()"
  by (simp add: validateEnvironmentVariables_def REQUIRED_ENV_VARS_def example_env_def)

lemmas worker_defs =
  handleRequest_def handlePurgeFullCache_def purge_and_cleanup_def purgeBunnyCDNCache_def
  cleanupPermaCacheFolders_def listPermaCacheFolders_def deleteFolder_def verifySignature_def
  validateEnvironmentVariables_def REQUIRED_ENV_VARS_def handleError_def truthy_def
  strict_neq_def template_def js_split_def element_def Promise_all_def is_rejected_def
  fulfilled_values_def tally_string_def cleanup_to_string_def purge_url_def perma_cache_url_def
  delete_event_def ok_def HTTP_OK_def HTTP_FORBIDDEN_def HTTP_NOT_FOUND_def
  HTTP_SERVER_ERROR_def undefined_split_message_def parseInt_def is_js_space_def
  digit_value_def number_of_digits_def delete_raises_def delete_succeeds_def
  legacy_cleanupPermaCacheFolders_def

lemmas scenario_defs =
  example_env_def example_request_def example_world_def example_hmac_def

subsection \<open>Splitting and parsing the signature header\<close>

lemma split_from_without_separator:
  "sep \<noteq> [] \<Longrightarrow> hd sep \<notin> set s \<Longrightarrow> split_from sep cur s = [cur @ s]"
proof (induction s arbitrary: cur)
  case Nil
  then show ?case by simp
next
  case (Cons c cs)
  from Cons.prems have "take (length sep) (c # cs) \<noteq> sep"
    by (cases sep) auto
  with Cons show ?case by simp
qed

lemma split_from_at_separator:
  "sep \<noteq> [] \<Longrightarrow> hd sep \<notin> set a \<Longrightarrow>
     split_from sep cur (a @ sep @ b) = (cur @ a) # split_from sep [] b"
proof (induction a arbitrary: cur)
  case Nil
  then obtain c cs where sep: "sep = c # cs" by (cases sep) auto
  then show ?case by simp
next
  case (Cons x xs)
  from Cons.prems have "take (length sep) (x # xs @ sep @ b) \<noteq> sep"
    by (cases sep) auto
  with Cons show ?case by simp
qed

lemma digit_value_digit: "d < 10 \<Longrightarrow> digit_value (''0123456789'' ! d) = Some d"
proof -
  assume "d < 10"
  then consider "d = 0" | "d = 1" | "d = 2" | "d = 3" | "d = 4" | "d = 5" | "d = 6" | "d = 7"
    | "d = 8" | "d = 9"
    by atomize_elim arith
  then show ?thesis
    by cases (simp_all add: digit_value_def)
qed

lemma decimal_string_of_nat: "decimal (string_of_nat n)"
proof (induction n rule: string_of_nat.induct)
  case (1 n)
  show ?case
  proof (cases "n < 10")
    case True
    then show ?thesis
      using digit_value_digit [of n] by (subst string_of_nat.simps) (auto simp: decimal_def)
  next
    case False
    have "n mod 10 < 10" by simp
    from digit_value_digit [OF this] 1 [OF False] False show ?thesis
      by (subst string_of_nat.simps) (auto simp: decimal_def)
  qed
qed

lemma string_of_nat_not_empty: "string_of_nat n \<noteq> []"
  by (subst string_of_nat.simps) simp

lemma take_digits_append:
  "decimal xs \<Longrightarrow> take_digits 10 (xs @ ys) = take_digits 10 xs @ take_digits 10 ys"
  by (induction xs) (auto simp: decimal_def)

lemma number_of_digits_string_of_nat:
  "number_of_digits 10 (take_digits 10 (string_of_nat n)) = n"
proof (induction n rule: string_of_nat.induct)
  case (1 n)
  show ?case
  proof (cases "n < 10")
    case True
    then show ?thesis
      using digit_value_digit [of n]
      by (subst string_of_nat.simps) (simp add: number_of_digits_def)
  next
    case False
    have m: "n mod 10 < 10" by simp
    have "take_digits 10 (string_of_nat n)
            = take_digits 10 (string_of_nat (n div 10)) @ [n mod 10]"
      using False digit_value_digit [OF m]
      by (subst string_of_nat.simps) (simp add: take_digits_append decimal_string_of_nat)
    then show ?thesis
      using 1 [OF False] by (simp add: number_of_digits_def)
  qed
qed

lemma take_digits_not_empty: "decimal s \<Longrightarrow> s \<noteq> [] \<Longrightarrow> take_digits 10 s \<noteq> []"
  by (cases s) (auto simp: decimal_def)

lemma decimal_no_space: "decimal s \<Longrightarrow> s \<noteq> [] \<Longrightarrow> dropWhile is_js_space s = s"
  by (cases s) (auto simp: decimal_def is_js_space_def digit_value_def)

lemma decimal_no_sign: "decimal s \<Longrightarrow> take 1 s \<noteq> ''+'' \<and> take 1 s \<noteq> ''-''"
  by (cases s) (auto simp: decimal_def digit_value_def)

lemma decimal_no_hex: "decimal s \<Longrightarrow> take 2 s \<noteq> ''0x'' \<and> take 2 s \<noteq> ''0X''"
proof (cases s)
  case Nil
  then show ?thesis by simp
next
  case (Cons a s')
  assume d: "decimal s"
  show ?thesis
  proof (cases s')
    case Nil
    with Cons show ?thesis by simp
  next
    case (Cons b s'')
    with \<open>s = a # s'\<close> d have "\<exists>d<10. digit_value b = Some d" by (simp add: decimal_def)
    then have "b \<noteq> CHR ''x'' \<and> b \<noteq> CHR ''X''" by (auto simp: digit_value_def)
    with Cons \<open>s = a # s'\<close> show ?thesis by simp
  qed
qed

lemma decimal_no_equals: "decimal s \<Longrightarrow> CHR ''='' \<notin> set s"
  by (auto simp: decimal_def digit_value_def)

lemma decimal_no_comma: "decimal s \<Longrightarrow> CHR '','' \<notin> set s"
  by (auto simp: decimal_def digit_value_def)

lemma parseInt_string_of_nat: "parseInt (Some (string_of_nat n)) = Some (int n)"
  using decimal_no_sign [OF decimal_string_of_nat, of n]
        decimal_no_hex [OF decimal_string_of_nat, of n]
        take_digits_not_empty [OF decimal_string_of_nat string_of_nat_not_empty, of n]
  by (simp add: parseInt_def template_def Let_def number_of_digits_string_of_nat
                decimal_no_space [OF decimal_string_of_nat string_of_nat_not_empty])

lemma well_formed_header_parts:
  assumes "CHR '','' \<notin> set hx"
  shows "js_split (''sha256='' @ hx @ '', t='' @ string_of_nat n) '', ''
           = [''sha256='' @ hx, ''t='' @ string_of_nat n]"
proof -
  have a: "hd '', '' \<notin> set (''sha256='' @ hx)" using assms by simp
  have b: "hd '', '' \<notin> set (''t='' @ string_of_nat n)"
    using decimal_no_comma [OF decimal_string_of_nat, of n] by simp
  have "split_from '', '' [] ((''sha256='' @ hx) @ '', '' @ (''t='' @ string_of_nat n))
          = ([] @ (''sha256='' @ hx)) # split_from '', '' [] (''t='' @ string_of_nat n)"
    using a by (intro split_from_at_separator) simp_all
  also have "split_from '', '' [] (''t='' @ string_of_nat n) = [[] @ (''t='' @ string_of_nat n)]"
    using b by (intro split_from_without_separator) simp_all
  finally show ?thesis by (simp add: js_split_def)
qed

lemma well_formed_timestamp:
  "element 1 (js_split (''t='' @ string_of_nat n) ''='') = Some (string_of_nat n)"
proof -
  have "split_from ''='' [] (''t'' @ ''='' @ string_of_nat n)
          = ([] @ ''t'') # split_from ''='' [] (string_of_nat n)"
    by (intro split_from_at_separator) simp_all
  also have "split_from ''='' [] (string_of_nat n) = [[] @ string_of_nat n]"
    using decimal_no_equals [OF decimal_string_of_nat, of n]
    by (intro split_from_without_separator) simp_all
  finally show ?thesis by (simp add: js_split_def element_def)
qed

lemma no_comma_header_is_unsplittable:
  "CHR '','' \<notin> set h \<Longrightarrow> element 1 (js_split h '', '') = None"
  by (simp add: js_split_def split_from_without_separator element_def)


lemma stale_timestamp_rejected:
  assumes "x_ghost_signature req = Some h"
      and "js_split h '', '' = sigHash # timeStamp # rest"
      and "parseInt (element 1 (js_split timeStamp ''='')) = Some t"
      and "\<bar>now - t\<bar> > 5 * 60 * 1000"
  shows "verifySignature hmac env now req = JBool False"
proof -
  have "h \<noteq> []" using assms(2) by (auto simp: js_split_def)
  then show ?thesis
    using assms by (simp add: verifySignature_def element_def)
qed

text \<open>
  A header in the documented format \<^verbatim>\<open>sha256=<hex>, t=<decimal-ms>\<close> is read by the code as the
  timestamp it names, so a stale one is rejected whatever its hash is.
\<close>

lemma stale_well_formed_signature_rejected:
  assumes "x_ghost_signature req = Some (''sha256='' @ hx @ '', t='' @ string_of_nat n)"
      and "CHR '','' \<notin> set hx"
      and "\<bar>now - int n\<bar> > 5 * 60 * 1000"
  shows "verifySignature hmac env now req = JBool False"
proof -
  have p: "parseInt (element 1 (js_split (''t='' @ string_of_nat n) ''='')) = Some (int n)"
    by (simp only: well_formed_timestamp parseInt_string_of_nat)
  show ?thesis
    by (rule stale_timestamp_rejected
               [OF assms(1) well_formed_header_parts [OF assms(2)] p assms(3)])
qed

subsection \<open>The failure paths of the current worker and of the legacy worker\<close>

lemma legacy_verifySignature_eq:
  "legacy_verifySignature hmac env now req
     = (case verifySignature hmac env now req of JBool b \<Rightarrow> b | JResponse _ \<Rightarrow> False)"
  by (simp add: legacy_verifySignature_def verifySignature_def Let_def split: option.splits)

lemma legacy_verifySignature_malformed:
  "legacy_verifySignature hmac example_env now
     (example_request\<lparr>x_ghost_signature := Some ''sha256=abc''\<rparr>) = False"
  by (simp add: legacy_verifySignature_def scenario_defs js_split_def element_def)

lemma legacy_handleRequest_malformed:
  "legacy_handleRequest hmac example_env now example_world
     (example_request\<lparr>x_ghost_signature := Some ''sha256=abc''\<rparr>)
   = (\<lparr>status = 403, body = ''Invalid signature''\<rparr>, [VerifyCalled])"
  by (simp add: legacy_handleRequest_def legacy_requiredEnvVars_def legacy_verifySignature_malformed)
     (simp add: scenario_defs)

lemma legacy_handleRequest_purge_failure:
  "legacy_handleRequest example_hmac example_env 1000
     (example_world\<lparr>purge_reply := HttpResponse 503 ()\<rparr>)
     (example_request\<lparr>x_ghost_signature := Some ''sha256=6f6, t=1000''\<rparr>)
   = (\<lparr>status = 500, body = ''An error occurred: Failed to purge cache. Status: 503''\<rparr>,
      [VerifyCalled, Fetch ''POST'' ''https://api.bunny.net/pullzone/42/purgeCache''])"
  by (simp add: legacy_handleRequest_def legacy_requiredEnvVars_def legacy_verifySignature_def
                worker_defs scenario_defs string_of_nat.simps)

lemma unsplittable_header_is_truthy:
  assumes "x_ghost_signature req = Some h" and "h \<noteq> []"
      and "element 1 (js_split h '', '') = None"
  shows "truthy (verifySignature hmac env now req)"
  using assms
  by (simp add: verifySignature_def truthy_def Let_def split: option.splits)

lemma unsplittable_header_is_authorized:
  assumes "x_ghost_signature req = Some h" and "h \<noteq> []"
      and "element 1 (js_split h '', '') = None"
      and "strict_neq (manualtriggertoken req) (env ''MANUAL_TRIGGER_TOKEN'')"
  shows "handlePurgeFullCache hmac env now w req
           = (fst (purge_and_cleanup env w), VerifyCalled # snd (purge_and_cleanup env w))"
  using unsplittable_header_is_truthy [OF assms(1-3), of hmac env now] assms(4)
  by (simp add: handlePurgeFullCache_def split: prod.splits)


lemma non_integer_timestamp_not_rejected:
  assumes "x_ghost_signature req = Some h"
      and "js_split h '', '' = sigHash # timeStamp # rest"
      and "element 1 (js_split sigHash ''='') = Some hash"
      and "element 1 (js_split timeStamp ''='') = ts"
      and "parseInt ts = None"
      and "env ''GHOST_WEBHOOK_SECRET'' = Some secret" and "secret \<noteq> []"
  shows "verifySignature hmac env now req = JBool (hmac secret (body_text req @ template ts) = hash)"
proof -
  have "h \<noteq> []" using assms(2) by (auto simp: js_split_def)
  then show ?thesis
    using assms by (simp add: verifySignature_def element_def)
qed

lemma purge_failure_skips_cleanup:
  assumes "purge_reply w = HttpResponse st u" and "\<not> ok st"
  shows "purge_and_cleanup env w
           = (Inl (''Failed to purge cache. Status: '' @ string_of_nat st),
              [Fetch ''POST'' (purge_url env)])"
  using assms by (simp add: purge_and_cleanup_def purgeBunnyCDNCache_def)

lemma listing_failure_skips_deletions:
  assumes "list_reply w = HttpResponse st payload" and "\<not> ok st"
  shows "cleanupPermaCacheFolders env w
           = (CleanupResponse
                (handleError (''Failed to list Perma-Cache folders. Status: '' @ string_of_nat st)),
              [Fetch ''GET'' (perma_cache_url env)])"
  using assms by (simp add: cleanupPermaCacheFolders_def listPermaCacheFolders_def)

lemma listing_failure_answers_success:
  assumes "list_reply w = HttpResponse st payload" and "\<not> ok st"
      and "purge_reply w = HttpResponse st' u" and "ok st'"
  shows "purge_and_cleanup env w
           = (Inr \<lparr>status = 200,
                   body = ''Full cache purge initiated successfully. Cleanup result: [object Response]''\<rparr>,
              [Fetch ''POST'' (purge_url env), Fetch ''GET'' (perma_cache_url env)])"
  using assms(3,4) listing_failure_skips_deletions [OF assms(1,2), of env]
  by (simp add: purge_and_cleanup_def purgeBunnyCDNCache_def cleanup_to_string_def HTTP_OK_def)

section \<open>The properties\<close>

text \<open>
  Claim C1 (the signature verifier fails closed). A request whose \<^verbatim>\<open>X-Ghost-Signature\<close> header
  has no \<^verbatim>\<open>", "\<close> separator cannot be split into a hash part and a timestamp part. On the
  complete example configuration, without a manual-trigger header, \<^verbatim>\<open>verifySignature\<close> does
  not return \<^verbatim>\<open>false\<close> for the header \<^verbatim>\<open>sha256=abc\<close>: the \<^verbatim>\<open>TypeError\<close> is caught and the
  \<^verbatim>\<open>Response\<close> built by \<^verbatim>\<open>handleError\<close> is returned. That object is truthy, so the handler
  goes on to purge and to clean up and answers 200; the CDN calls are in the trace. This
  holds for every HMAC function and every clock value. (\<open>unsplittable_header_is_authorized\<close>
  and \<open>no_comma_header_is_unsplittable\<close> give the same for every header without a comma;
  \<open>legacy_handleRequest_malformed\<close> shows the legacy worker answering 403 to this request.)
\<close>

theorem malformed_signature_header_is_accepted:
  "verifySignature hmac example_env now (example_request\<lparr>x_ghost_signature := Some ''sha256=abc''\<rparr>)
     = JResponse \<lparr>status = 500,
                  body = ''An error occurred: Cannot read properties of undefined (reading split)''\<rparr>
   \<and> handleRequest hmac example_env now example_world
         (example_request\<lparr>x_ghost_signature := Some ''sha256=abc''\<rparr>)
     = (Responded \<lparr>status = 200,
          body = ''Full cache purge initiated successfully. Cleanup result: Cleanup completed. Total folders: 3, Deleted: 2, Failed: 1''\<rparr>,
        [VerifyCalled,
         Fetch ''POST'' ''https://api.bunny.net/pullzone/42/purgeCache'',
         Fetch ''GET'' ''https://ny.storage.bunnycdn.com/zone/__bcdn_perma_cache__/'',
         Fetch ''DELETE'' ''https://ny.storage.bunnycdn.com/zone/__bcdn_perma_cache__/a/'',
         Fetch ''DELETE'' ''https://ny.storage.bunnycdn.com/zone/__bcdn_perma_cache__/b/'',
         Fetch ''DELETE'' ''https://ny.storage.bunnycdn.com/zone/__bcdn_perma_cache__/c/''])"
  by (simp add: worker_defs scenario_defs string_of_nat.simps)

text \<open>
  Claim C2 (a deletion that raises is counted as failed and isolated), refuted as stated:
  three folders are listed, the deletion of the first is answered 200 and the two others
  raise. All three DELETE requests are issued, but the cleanup returns the error response
  for the rejection that settles first; no tally (3 folders, 1 deleted, 2 failed) is
  produced.
\<close>

theorem delete_raise_not_counted_counterexample:
  "cleanupPermaCacheFolders example_env
       (example_world\<lparr>list_reply := HttpResponse 200
          (Folders [(''a'', HttpResponse 200 ()), (''b'', NetworkError ''boom''),
                    (''c'', NetworkError ''bang'')])\<rparr>)
     = (CleanupResponse \<lparr>status = 500, body = ''An error occurred: bang''\<rparr>,
        [Fetch ''GET'' ''https://ny.storage.bunnycdn.com/zone/__bcdn_perma_cache__/'',
         Fetch ''DELETE'' ''https://ny.storage.bunnycdn.com/zone/__bcdn_perma_cache__/a/'',
         Fetch ''DELETE'' ''https://ny.storage.bunnycdn.com/zone/__bcdn_perma_cache__/b/'',
         Fetch ''DELETE'' ''https://ny.storage.bunnycdn.com/zone/__bcdn_perma_cache__/c/''])
   \<and> fst (cleanupPermaCacheFolders example_env
       (example_world\<lparr>list_reply := HttpResponse 200
          (Folders [(''a'', HttpResponse 200 ()), (''b'', NetworkError ''boom''),
                    (''c'', NetworkError ''bang'')])\<rparr>))
     \<noteq> CleanupString (tally_string 3 1 2)"
  by (simp add: worker_defs scenario_defs)

text \<open>
  Claim C2, amended. When the listing succeeds and the DELETE call of some listed folder
  raises, the deletion is not counted: every listed folder's DELETE request has been
  issued, in list order (no sibling is cancelled), but the cleanup produces no tally. The
  error is caught inside \<^verbatim>\<open>cleanupPermaCacheFolders\<close>, which returns the error response of
  \<^verbatim>\<open>handleError\<close> for one of the raised errors instead of rethrowing.
\<close>

theorem delete_raise_aborts_tally:
  assumes "list_reply w = HttpResponse st (Folders folders)" and "ok st"
      and "f \<in> set folders" and "delete_raises f"
  shows "snd (cleanupPermaCacheFolders env w)
           = Fetch ''GET'' (perma_cache_url env) # map (delete_event env) folders
         \<and> (\<exists>name e. (name, NetworkError e) \<in> set folders
                \<and> fst (cleanupPermaCacheFolders env w) = CleanupResponse (handleError e))
         \<and> (\<forall>s. fst (cleanupPermaCacheFolders env w) \<noteq> CleanupString s)"
proof -
  from cleanup_raise [OF assms, of env]
  obtain name e where "(name, NetworkError e) \<in> set folders"
    and "cleanupPermaCacheFolders env w =
           (CleanupResponse (handleError e),
            Fetch ''GET'' (perma_cache_url env) # map (delete_event env) folders)"
    by blast
  then show ?thesis by auto
qed

text \<open>
  Claim C2, witness of the amended statement: two folders, the deletion of the first
  raises.
\<close>

theorem delete_raise_aborts_tally_witness:
  "snd (cleanupPermaCacheFolders example_env
       (example_world\<lparr>list_reply := HttpResponse 200
          (Folders [(''x'', NetworkError ''timeout''), (''y'', HttpResponse 200 ())])\<rparr>))
     = [Fetch ''GET'' ''https://ny.storage.bunnycdn.com/zone/__bcdn_perma_cache__/'',
        Fetch ''DELETE'' ''https://ny.storage.bunnycdn.com/zone/__bcdn_perma_cache__/x/'',
        Fetch ''DELETE'' ''https://ny.storage.bunnycdn.com/zone/__bcdn_perma_cache__/y/'']
   \<and> fst (cleanupPermaCacheFolders example_env
       (example_world\<lparr>list_reply := HttpResponse 200
          (Folders [(''x'', NetworkError ''timeout''), (''y'', HttpResponse 200 ())])\<rparr>))
     \<noteq> CleanupString (tally_string 2 1 1)"
proof -
  let ?fs = "[(''x'', NetworkError ''timeout''), (''y'', HttpResponse 200 ())]"
  let ?w = "example_world\<lparr>list_reply := HttpResponse 200 (Folders ?fs)\<rparr>"
  have l: "list_reply ?w = HttpResponse 200 (Folders ?fs)" by simp
  have o: "ok 200" by (simp add: ok_def)
  have m: "(''x'', NetworkError ''timeout'') \<in> set ?fs" by simp
  have r: "delete_raises (''x'', NetworkError ''timeout'')" by (simp add: delete_raises_def)
  from delete_raise_aborts_tally [OF l o m r, of example_env]
  show ?thesis
    by (simp add: perma_cache_url_def delete_event_def template_def example_env_def)
qed

text \<open>
  Claim C3 (a failed listing surfaces as a 500 response). With the correct bypass token, a
  successful purge and a listing answered 503, no DELETE request is issued and no tally is
  produced, but the client receives status 200: the \<^verbatim>\<open>Response\<close> that the \<^verbatim>\<open>catch\<close> of
  \<^verbatim>\<open>cleanupPermaCacheFolders\<close> returns is interpolated into the body of the success response.
  (\<open>listing_failure_answers_success\<close> gives the same for every status that is not ok.)
\<close>

theorem listing_failure_answers_200:
  "handleRequest hmac example_env now
       (example_world\<lparr>list_reply := HttpResponse 503 (Folders [])\<rparr>)
       (example_request\<lparr>manualtriggertoken := Some ''tok''\<rparr>)
     = (Responded \<lparr>status = 200,
          body = ''Full cache purge initiated successfully. Cleanup result: [object Response]''\<rparr>,
        [Fetch ''POST'' ''https://api.bunny.net/pullzone/42/purgeCache'',
         Fetch ''GET'' ''https://ny.storage.bunnycdn.com/zone/__bcdn_perma_cache__/''])"
  by (simp add: worker_defs scenario_defs string_of_nat.simps)

text \<open>
  Claim C4 (tally invariant: total = N, failed = K, deleted = N - K), refuted as stated:
  one folder is listed and its deletion fails by raising (N = 1, K = 1). The cleanup
  returns an error response, not the tally with total 1, deleted 0, failed 1.
\<close>

theorem single_raising_deletion_counterexample:
  "\<not> delete_succeeds (''a'', NetworkError ''connection reset'')
   \<and> fst (cleanupPermaCacheFolders example_env
       (example_world\<lparr>list_reply := HttpResponse 200
          (Folders [(''a'', NetworkError ''connection reset'')]), completion_order := [0]\<rparr>))
     = CleanupResponse \<lparr>status = 500, body = ''An error occurred: connection reset''\<rparr>
   \<and> fst (cleanupPermaCacheFolders example_env
       (example_world\<lparr>list_reply := HttpResponse 200
          (Folders [(''a'', NetworkError ''connection reset'')]), completion_order := [0]\<rparr>))
     \<noteq> CleanupString (tally_string 1 0 1)"
  by (simp add: worker_defs scenario_defs)

text \<open>
  Claim C4, amended. When the listing succeeds with N folders and every DELETE call is
  answered (none raises), K of them with a status that is not ok, the cleanup returns the
  tally with total = N, deleted = N - K and failed = K, whatever the completion order of
  the deletions is; and deleted + failed = total.
\<close>

theorem cleanup_tally_invariant:
  assumes "list_reply w = HttpResponse st (Folders folders)" and "ok st"
      and "\<forall>f\<in>set folders. \<not> delete_raises f"
      and "N = length folders"
      and "K = length (filter (\<lambda>f. \<not> delete_succeeds f) folders)"
  shows "fst (cleanupPermaCacheFolders env (w\<lparr>completion_order := order\<rparr>))
           = CleanupString (tally_string N (N - K) K)
         \<and> (N - K) + K = N"
proof -
  have "length (filter delete_succeeds folders) + K = N"
    using assms(4,5) by (simp add: sum_length_filter_compl)
  then have D: "length (filter delete_succeeds folders) = N - K" and "(N - K) + K = N"
    by simp_all
  moreover have "list_reply (w\<lparr>completion_order := order\<rparr>) = HttpResponse st (Folders folders)"
    using assms(1) by simp
  from cleanup_no_raise [OF this assms(2,3)]
  have "fst (cleanupPermaCacheFolders env (w\<lparr>completion_order := order\<rparr>))
          = CleanupString (tally_string (length folders)
              (length (filter delete_succeeds folders))
              (length (filter (\<lambda>f. \<not> delete_succeeds f) folders)))"
    by simp
  ultimately show ?thesis
    using assms(4,5) by simp
qed

text \<open>
  Claim C4, witness of the amended statement: three folders, one deletion answered 404,
  completion order 1, 0, 2.
\<close>

theorem cleanup_tally_invariant_witness:
  "fst (cleanupPermaCacheFolders example_env (example_world\<lparr>completion_order := [1, 0, 2]\<rparr>))
     = CleanupString ''Cleanup completed. Total folders: 3, Deleted: 2, Failed: 1''"
proof -
  let ?fs = "[(''a'', HttpResponse 200 ()), (''b'', HttpResponse 404 ()), (''c'', HttpResponse 204 ())]"
  have l: "list_reply example_world = HttpResponse 200 (Folders ?fs)"
    by (simp add: example_world_def)
  have o: "ok 200" by (simp add: ok_def)
  have n: "\<forall>f\<in>set ?fs. \<not> delete_raises f" by (simp add: delete_raises_def)
  have N: "(3::nat) = length ?fs" by simp
  have K: "(1::nat) = length (filter (\<lambda>f. \<not> delete_succeeds f) ?fs)"
    by (simp add: delete_succeeds_def ok_def)
  from cleanup_tally_invariant [OF l o n N K, of example_env "[1, 0, 2]"]
  show ?thesis by (simp add: tally_string_def string_of_nat.simps)
qed

text \<open>
  Claim C5 (a failed purge skips the cleanup and surfaces as a 500 response). With the
  correct bypass token and a purge answered 503, the only request issued is the purge: the
  cleanup is never invoked. But the worker builds no 500 response: the rejection of
  \<^verbatim>\<open>handlePurgeFullCache\<close> is returned without \<^verbatim>\<open>await\<close> from the \<^verbatim>\<open>try\<close> block of
  \<^verbatim>\<open>handleRequest\<close>, so the \<^verbatim>\<open>catch\<close> does not see it and the promise given to
  \<^verbatim>\<open>respondWith\<close> is rejected. (\<open>purge_failure_skips_cleanup\<close> gives the skipped cleanup for
  every status that is not ok; \<open>legacy_handleRequest_purge_failure\<close> shows the legacy
  worker answering 500.)
\<close>

theorem purge_failure_is_unhandled:
  "handleRequest hmac example_env now
       (example_world\<lparr>purge_reply := HttpResponse 503 ()\<rparr>)
       (example_request\<lparr>manualtriggertoken := Some ''tok''\<rparr>)
     = (Unhandled ''Failed to purge cache. Status: 503'',
        [Fetch ''POST'' ''https://api.bunny.net/pullzone/42/purgeCache''])"
  by (simp add: worker_defs scenario_defs string_of_nat.simps)

text \<open>
  Claim C6 (a timestamp outside the replay window is always denied), refuted as stated: the
  request carries a signature whose timestamp 1000 is far older than five minutes at the
  server time 1700000000000, and the correct manual-trigger token. Authorization allows:
  the handler answers 200.
\<close>

theorem stale_signature_with_bypass_token_counterexample:
  "js_split ''sha256=6f6, t=1000'' '', '' = [''sha256=6f6'', ''t=1000'']
   \<and> parseInt (element 1 (js_split ''t=1000'' ''='')) = Some 1000
   \<and> \<bar>1700000000000 - 1000\<bar> > (5 * 60 * 1000 :: int)
   \<and> fst (handlePurgeFullCache example_hmac example_env 1700000000000 example_world
        (example_request\<lparr>x_ghost_signature := Some ''sha256=6f6, t=1000'',
                          manualtriggertoken := Some ''tok''\<rparr>))
     = Inr \<lparr>status = 200,
            body = ''Full cache purge initiated successfully. Cleanup result: Cleanup completed. Total folders: 3, Deleted: 2, Failed: 1''\<rparr>"
  by (simp add: worker_defs scenario_defs string_of_nat.simps)

text \<open>
  Claim C6, amended. For every request from whose \<^verbatim>\<open>X-Ghost-Signature\<close> header the code reads
  a timestamp \<open>t\<close> with \<open>\<bar>now - t\<bar>\<close> greater than five minutes (in either direction),
  \<^verbatim>\<open>verifySignature\<close> returns \<^verbatim>\<open>false\<close>, whatever the hash, the secret and the HMAC function
  are; and if the request does not carry the configured manual-trigger token, the handler
  answers 403 \<^verbatim>\<open>Invalid signature\<close> without any CDN call. (By
  \<open>stale_well_formed_signature_rejected\<close> the premises hold of every header in the documented
  format.)
\<close>

theorem replay_window_enforced:
  assumes "x_ghost_signature req = Some h"
      and "js_split h '', '' = sigHash # timeStamp # rest"
      and "parseInt (element 1 (js_split timeStamp ''='')) = Some t"
      and "\<bar>now - t\<bar> > 5 * 60 * 1000"
  shows "verifySignature hmac env now req = JBool False
         \<and> (strict_neq (manualtriggertoken req) (env ''MANUAL_TRIGGER_TOKEN'') \<longrightarrow>
              handlePurgeFullCache hmac env now w req
                = (Inr \<lparr>status = 403, body = ''Invalid signature''\<rparr>, [VerifyCalled]))"
proof -
  have "verifySignature hmac env now req = JBool False"
    using assms by (rule stale_timestamp_rejected)
  then show ?thesis
    by (simp add: handlePurgeFullCache_def truthy_def HTTP_FORBIDDEN_def)
qed

text \<open>
  Claim C6, witness of the amended statement: the hash of the header is the one
  \<open>example_hmac\<close> computes for the body and the timestamp 1000. At server time 301000 (five
  minutes later, to the millisecond) the signature verifies; at 301001 it is rejected.
\<close>

theorem replay_window_enforced_witness:
  "verifySignature example_hmac example_env 301001
       (example_request\<lparr>x_ghost_signature := Some ''sha256=6f6, t=1000''\<rparr>) = JBool False
   \<and> verifySignature example_hmac example_env 301000
       (example_request\<lparr>x_ghost_signature := Some ''sha256=6f6, t=1000''\<rparr>) = JBool True
   \<and> handlePurgeFullCache example_hmac example_env 301001 example_world
       (example_request\<lparr>x_ghost_signature := Some ''sha256=6f6, t=1000''\<rparr>)
     = (Inr \<lparr>status = 403, body = ''Invalid signature''\<rparr>, [VerifyCalled])"
proof -
  let ?req = "example_request\<lparr>x_ghost_signature := Some ''sha256=6f6, t=1000''\<rparr>"
  have h: "x_ghost_signature ?req = Some ''sha256=6f6, t=1000''" by simp
  have s: "js_split ''sha256=6f6, t=1000'' '', '' = ''sha256=6f6'' # ''t=1000'' # []"
    by (simp add: js_split_def)
  have p: "parseInt (element 1 (js_split ''t=1000'' ''='')) = Some 1000"
    by (simp add: js_split_def element_def parseInt_def template_def is_js_space_def
                  digit_value_def number_of_digits_def)
  have d: "\<bar>301001 - 1000\<bar> > (5 * 60 * 1000 :: int)" by simp
  have b: "strict_neq (manualtriggertoken ?req) (example_env ''MANUAL_TRIGGER_TOKEN'')"
    by (simp add: strict_neq_def example_request_def)
  have ok: "verifySignature example_hmac example_env 301000 ?req = JBool True"
    by (simp add: worker_defs scenario_defs string_of_nat.simps)
  from replay_window_enforced
         [where env = example_env and req = ?req and hmac = example_hmac
            and w = example_world, OF h s p d] b ok
  show ?thesis by simp
qed

text \<open>
  Claim C7 (bypass authorization). For every request whose \<^verbatim>\<open>manualtriggertoken\<close> header
  equals the configured \<^verbatim>\<open>MANUAL_TRIGGER_TOKEN\<close>, \<^verbatim>\<open>handlePurgeFullCache\<close> goes straight to the
  purge: \<^verbatim>\<open>verifySignature\<close> is not called, the first event is the purge request, and the
  result is the same for every \<^verbatim>\<open>X-Ghost-Signature\<close> header (absent, malformed, expired or
  valid), every HMAC function and every clock value.
\<close>

theorem bypass_token_skips_verifier:
  assumes "manualtriggertoken req = Some tok" and "env ''MANUAL_TRIGGER_TOKEN'' = Some tok"
  shows "handlePurgeFullCache hmac env now w req = purge_and_cleanup env w
         \<and> VerifyCalled \<notin> set (snd (handlePurgeFullCache hmac env now w req))
         \<and> (\<exists>tr. snd (handlePurgeFullCache hmac env now w req)
                    = Fetch ''POST'' (purge_url env) # tr)
         \<and> handlePurgeFullCache hmac' env now' w (req\<lparr>x_ghost_signature := sig\<rparr>)
             = handlePurgeFullCache hmac env now w req"
proof -
  have "handlePurgeFullCache hmac env now w req = purge_and_cleanup env w"
    using assms by (simp add: handlePurgeFullCache_def strict_neq_def)
  moreover have "handlePurgeFullCache hmac' env now' w (req\<lparr>x_ghost_signature := sig\<rparr>)
                   = purge_and_cleanup env w"
    using assms by (simp add: handlePurgeFullCache_def strict_neq_def)
  ultimately show ?thesis
    using only_fetches_purge_and_cleanup [of env w]
          purge_and_cleanup_starts_with_purge [of env w]
    by simp
qed

text \<open>
  Claim C7, witness: the correct token with a malformed signature header.
\<close>

theorem bypass_token_skips_verifier_witness:
  "handlePurgeFullCache example_hmac example_env 0 example_world
       (example_request\<lparr>manualtriggertoken := Some ''tok'', x_ghost_signature := Some ''garbage''\<rparr>)
     = (Inr \<lparr>status = 200,
             body = ''Full cache purge initiated successfully. Cleanup result: Cleanup completed. Total folders: 3, Deleted: 2, Failed: 1''\<rparr>,
        [Fetch ''POST'' ''https://api.bunny.net/pullzone/42/purgeCache'',
         Fetch ''GET'' ''https://ny.storage.bunnycdn.com/zone/__bcdn_perma_cache__/'',
         Fetch ''DELETE'' ''https://ny.storage.bunnycdn.com/zone/__bcdn_perma_cache__/a/'',
         Fetch ''DELETE'' ''https://ny.storage.bunnycdn.com/zone/__bcdn_perma_cache__/b/'',
         Fetch ''DELETE'' ''https://ny.storage.bunnycdn.com/zone/__bcdn_perma_cache__/c/''])"
proof -
  let ?req = "example_request\<lparr>manualtriggertoken := Some ''tok'', x_ghost_signature := Some ''garbage''\<rparr>"
  have t: "manualtriggertoken ?req = Some ''tok''" by simp
  have e: "example_env ''MANUAL_TRIGGER_TOKEN'' = Some ''tok''" by (simp add: example_env_def)
  have "handlePurgeFullCache example_hmac example_env 0 example_world ?req
          = purge_and_cleanup example_env example_world"
    using bypass_token_skips_verifier
            [where env = example_env and req = ?req and hmac = example_hmac and now = 0
               and w = example_world, OF t e]
    by simp
  then show ?thesis
    by (simp add: worker_defs example_env_def example_world_def string_of_nat.simps)
qed

text \<open>
  Claim C8 (configuration fails closed). For every request, if one of the seven required
  configuration values is absent, \<^verbatim>\<open>handleRequest\<close> responds with status 500, naming a missing
  variable, and no remote call has been issued.
\<close>

theorem missing_configuration_answers_500:
  assumes "v \<in> set REQUIRED_ENV_VARS" and "env v = None"
  shows "\<exists>m\<in>set REQUIRED_ENV_VARS. env m = None \<and>
           handleRequest hmac env now w req =
             (Responded \<lparr>status = 500,
                         body = ''An error occurred: Missing required environment variable: '' @ m\<rparr>,
              [])"
proof -
  from validate_missing [of v env, OF assms]
  obtain m where "m \<in> set REQUIRED_ENV_VARS" "env m = None"
    "validateEnvironmentVariables env = Inl (''Missing required environment variable: '' @ m)"
    by blast
  then show ?thesis
    by (auto simp: handleRequest_def handleError_def HTTP_SERVER_ERROR_def)
qed

text \<open>
  Claim C8, witness: the example configuration without \<^verbatim>\<open>BUNNY_API_KEY\<close>.
\<close>

theorem missing_configuration_answers_500_witness:
  "handleRequest example_hmac (example_env(''BUNNY_API_KEY'' := None)) 0 example_world
       example_request
     = (Responded \<lparr>status = 500,
          body = ''An error occurred: Missing required environment variable: BUNNY_API_KEY''\<rparr>,
        [])"
proof -
  have v: "''BUNNY_API_KEY'' \<in> set REQUIRED_ENV_VARS" by (simp add: REQUIRED_ENV_VARS_def)
  have n: "(example_env(''BUNNY_API_KEY'' := None)) ''BUNNY_API_KEY'' = None" by simp
  from missing_configuration_answers_500
         [where env = "example_env(''BUNNY_API_KEY'' := None)" and hmac = example_hmac
            and now = 0 and w = example_world and req = example_request, OF v n]
  show ?thesis
    by (auto simp: REQUIRED_ENV_VARS_def example_env_def)
qed

text \<open>
  Claim C9 (routing depends only on the path; any other path gets 404), refuted as stated:
  the configuration is checked before the path is looked at, so a request for
  \<^verbatim>\<open>/health\<close> to a worker whose \<^verbatim>\<open>MANUAL_TRIGGER_TOKEN\<close> is not set gets 500, not 404.
\<close>

theorem unconfigured_worker_other_path_counterexample:
  "handleRequest example_hmac (example_env(''MANUAL_TRIGGER_TOKEN'' := None)) 0 example_world
       (example_request\<lparr>pathname := ''/health''\<rparr>)
     = (Responded \<lparr>status = 500,
          body = ''An error occurred: Missing required environment variable: MANUAL_TRIGGER_TOKEN''\<rparr>,
        [])"
  by (simp add: worker_defs scenario_defs)

text \<open>
  Claim C9, amended. The answer of \<^verbatim>\<open>handleRequest\<close> never depends on the HTTP method. When
  all required configuration values are present, a request whose path is
  \<^verbatim>\<open>/purge-full-cache\<close> gets whatever \<^verbatim>\<open>handlePurgeFullCache\<close> (authorization, then purge and
  cleanup) yields for it, and a request with any other path gets 404 with body
  \<^verbatim>\<open>Not Found\<close>.
\<close>

theorem routing_ignores_method:
  "handleRequest hmac env now w (req\<lparr>http_method := m\<rparr>) = handleRequest hmac env now w req
   \<and> (validateEnvironmentVariables env = Inr () \<longrightarrow>
        handleRequest hmac env now w req =
          (if pathname req = ''/purge-full-cache''
           then (case handlePurgeFullCache hmac env now w req of
                   (Inl e, tr) \<Rightarrow> (Unhandled e, tr)
                 | (Inr r, tr) \<Rightarrow> (Responded r, tr))
           else (Responded \<lparr>status = 404, body = ''Not Found''\<rparr>, [])))"
  by (simp add: handleRequest_def handlePurgeFullCache_ignores_method HTTP_NOT_FOUND_def
           split: sum.splits)

text \<open>
  Claim C9, witness of the amended statement: a GET for another path, and a GET and a POST
  for the purge path.
\<close>

theorem routing_ignores_method_witness:
  "handleRequest example_hmac example_env 0 example_world
       (example_request\<lparr>pathname := ''/health'', http_method := ''GET''\<rparr>)
     = (Responded \<lparr>status = 404, body = ''Not Found''\<rparr>, [])
   \<and> handleRequest example_hmac example_env 0 example_world
       (example_request\<lparr>http_method := ''GET''\<rparr>)
     = (Responded \<lparr>status = 403, body = ''Invalid signature''\<rparr>, [VerifyCalled])
   \<and> handleRequest example_hmac example_env 0 example_world example_request
     = (Responded \<lparr>status = 403, body = ''Invalid signature''\<rparr>, [VerifyCalled])"
proof -
  have a: "handlePurgeFullCache example_hmac example_env 0 example_world example_request
             = (Inr \<lparr>status = 403, body = ''Invalid signature''\<rparr>, [VerifyCalled])"
    by (simp add: worker_defs scenario_defs)
  from routing_ignores_method
         [where env = example_env and hmac = example_hmac and now = 0 and w = example_world
            and req = "example_request\<lparr>pathname := ''/health''\<rparr>" and m = "''GET''"]
       routing_ignores_method
         [where env = example_env and hmac = example_hmac and now = 0 and w = example_world
            and req = example_request and m = "''GET''"]
       example_env_complete a
  show ?thesis by (simp add: example_request_def)
qed

text \<open>
  Claim C10 (refinement of the legacy variant). For every successfully listed folder
  sequence in which no DELETE call raises, the current cleanup (map and join-all) and the
  legacy sequential loop return the same tally string, with N the number of folders, D the
  number of deletions answered ok and F the number of the others; they also issue the same
  requests in the same order.
\<close>

theorem legacy_cleanup_same_tally:
  assumes "list_reply w = HttpResponse st (Folders folders)" and "ok st"
      and "\<forall>f\<in>set folders. \<not> delete_raises f"
  shows "cleanupPermaCacheFolders env w =
           (CleanupString (tally_string (length folders)
              (length (filter delete_succeeds folders))
              (length (filter (\<lambda>f. \<not> delete_succeeds f) folders))),
            Fetch ''GET'' (perma_cache_url env) # map (delete_event env) folders)
         \<and> legacy_cleanupPermaCacheFolders env w =
           (tally_string (length folders)
              (length (filter delete_succeeds folders))
              (length (filter (\<lambda>f. \<not> delete_succeeds f) folders)),
            Fetch ''GET'' (perma_cache_url env) # map (delete_event env) folders)"
proof
  show "cleanupPermaCacheFolders env w =
           (CleanupString (tally_string (length folders)
              (length (filter delete_succeeds folders))
              (length (filter (\<lambda>f. \<not> delete_succeeds f) folders))),
            Fetch ''GET'' (perma_cache_url env) # map (delete_event env) folders)"
    using assms by (rule cleanup_no_raise)
next
  show "legacy_cleanupPermaCacheFolders env w =
           (tally_string (length folders)
              (length (filter delete_succeeds folders))
              (length (filter (\<lambda>f. \<not> delete_succeeds f) folders)),
            Fetch ''GET'' (perma_cache_url env) # map (delete_event env) folders)"
    using assms(1,2) legacy_delete_loop_no_raise [OF assms(3), of env 0 0]
    by (simp add: legacy_cleanupPermaCacheFolders_def listPermaCacheFolders_ok)
qed

text \<open>
  Claim C10, witness: the three folders of the example scenario.
\<close>

theorem legacy_cleanup_same_tally_witness:
  "cleanupPermaCacheFolders example_env example_world
     = (CleanupString ''Cleanup completed. Total folders: 3, Deleted: 2, Failed: 1'',
        [Fetch ''GET'' ''https://ny.storage.bunnycdn.com/zone/__bcdn_perma_cache__/'',
         Fetch ''DELETE'' ''https://ny.storage.bunnycdn.com/zone/__bcdn_perma_cache__/a/'',
         Fetch ''DELETE'' ''https://ny.storage.bunnycdn.com/zone/__bcdn_perma_cache__/b/'',
         Fetch ''DELETE'' ''https://ny.storage.bunnycdn.com/zone/__bcdn_perma_cache__/c/''])
   \<and> legacy_cleanupPermaCacheFolders example_env example_world
     = (''Cleanup completed. Total folders: 3, Deleted: 2, Failed: 1'',
        [Fetch ''GET'' ''https://ny.storage.bunnycdn.com/zone/__bcdn_perma_cache__/'',
         Fetch ''DELETE'' ''https://ny.storage.bunnycdn.com/zone/__bcdn_perma_cache__/a/'',
         Fetch ''DELETE'' ''https://ny.storage.bunnycdn.com/zone/__bcdn_perma_cache__/b/'',
         Fetch ''DELETE'' ''https://ny.storage.bunnycdn.com/zone/__bcdn_perma_cache__/c/''])"
proof -
  let ?fs = "[(''a'', HttpResponse 200 ()), (''b'', HttpResponse 404 ()), (''c'', HttpResponse 204 ())]"
  have l: "list_reply example_world = HttpResponse 200 (Folders ?fs)"
    by (simp add: example_world_def)
  have o: "ok 200" by (simp add: ok_def)
  have n: "\<forall>f\<in>set ?fs. \<not> delete_raises f" by (simp add: delete_raises_def)
  from legacy_cleanup_same_tally [OF l o n, of example_env]
  show ?thesis
    by (simp add: tally_string_def string_of_nat.simps delete_succeeds_def ok_def
                  perma_cache_url_def delete_event_def template_def example_env_def)
qed

end
